theory Spec2Isabelle
  imports Complex_Main "HOL-Library.Word"
begin

section \<open>The species card: form schema, handlers and rendered controls\<close>

text \<open>
  A shallow embedding of \<^verbatim>\<open>src/app/species/species-card.tsx\<close>: the form schema
  \<^verbatim>\<open>speciesSchema\<close>, the event handlers of \<^verbatim>\<open>SpeciesCard\<close> as functions on the
  component's local state that also return the calls they make to the data store, the
  router and the toaster, and the conditions under which the JSX renders each control.
\<close>

subsection \<open>Strings and numbers of the platform\<close>

text \<open>
  A JavaScript string is a sequence of 16-bit code units; \<^verbatim>\<open>length\<close> counts code units.
  \<open>js\<close> writes an ASCII literal as such a sequence.
\<close>

type_synonym jsstring = "16 word list"

definition js :: "string \<Rightarrow> jsstring" where
  "js s = map of_char s"

text \<open>
  \<^verbatim>\<open>String.prototype.trim\<close> removes white space and line terminators from both ends:
  TAB, LF, VT, FF, CR, SP, NBSP, U+1680, U+2000 to U+200A, LS, PS, U+202F, U+205F,
  U+3000 and the byte order mark.
\<close>

definition is_ws :: "16 word \<Rightarrow> bool" where
  "is_ws c = (c \<in> set [0x0009, 0x000A, 0x000B, 0x000C, 0x000D, 0x0020, 0x00A0, 0x1680,
                         0x2028, 0x2029, 0x202F, 0x205F, 0x3000, 0xFEFF]
              \<or> (0x2000 \<le> c \<and> c \<le> 0x200A))"

definition trim :: "jsstring \<Rightarrow> jsstring" where
  "trim s = rev (dropWhile is_ws (rev (dropWhile is_ws s)))"

text \<open>
  A JavaScript number is a double: not-a-number, an infinity (\<open>True\<close> for the positive
  one), or a finite value, which is a rational. The sign of zero is not kept; no check of
  the schema tells the two zeros apart.
\<close>

datatype jsnumber = NaN | Infinity bool | Num rat

text \<open>
  The unary plus of \<^verbatim>\<open>+event.target.value\<close> is the string-to-number conversion. White
  space is stripped from both ends and the empty string is 0. A decimal integer, that is
  an optional sign and one or more decimal digits, has its value; up to \<open>2 ^ 53\<close> in
  magnitude that value is a double, so the result is exact. Everything else (larger
  integers, fractions, exponents, the other radices, \<^verbatim>\<open>Infinity\<close>, and what is not a
  literal and gives \<open>NaN\<close>) is left to the parameter \<open>lit\<close>, which gets the stripped
  string.
\<close>

definition is_digit :: "16 word \<Rightarrow> bool" where
  "is_digit c = (0x0030 \<le> c \<and> c \<le> 0x0039)"

definition decimal_value :: "jsstring \<Rightarrow> nat" where
  "decimal_value ds = foldl (\<lambda>n c. 10 * n + (unat c - 48)) 0 ds"

definition decimal_digits :: "jsstring \<Rightarrow> nat option" where
  "decimal_digits ds =
     (if ds \<noteq> [] \<and> list_all is_digit ds then Some (decimal_value ds) else None)"

definition signed_integer :: "jsstring \<Rightarrow> int option" where
  "signed_integer t =
     (case t of
        [] \<Rightarrow> None
      | c # cs \<Rightarrow>
          if c = 0x002B then map_option int (decimal_digits cs)
          else if c = 0x002D then map_option (\<lambda>n. - int n) (decimal_digits cs)
          else map_option int (decimal_digits t))"

definition to_number :: "(jsstring \<Rightarrow> jsnumber) \<Rightarrow> jsstring \<Rightarrow> jsnumber" where
  "to_number lit s =
     (let t = trim s in
      if t = [] then Num 0
      else case signed_integer t of
             Some n \<Rightarrow> if \<bar>n\<bar> \<le> 2 ^ 53 then Num (of_int n) else lit t
           | None \<Rightarrow> lit t)"

subsection \<open>The URL check of the schema\<close>

text \<open>
  \<^verbatim>\<open>z.string().url()\<close> accepts a string when the platform's \<^verbatim>\<open>new URL(s)\<close>, called
  with no base, does not throw. The parser strips C0 controls and spaces from both ends,
  drops every tab and newline, and then reads a scheme: an ASCII letter, then letters,
  digits, \<^verbatim>\<open>+\<close>, \<^verbatim>\<open>-\<close> and \<^verbatim>\<open>.\<close>, then a colon. With no base, an input without a scheme
  is a failure. What the parser does after the colon (authority, host, port, path) is the
  parameter \<open>rest\<close>, given the scheme as written and the remaining input.
\<close>

definition is_c0_or_space :: "16 word \<Rightarrow> bool" where
  "is_c0_or_space c = (c \<le> 0x0020)"

definition is_tab_or_newline :: "16 word \<Rightarrow> bool" where
  "is_tab_or_newline c = (c = 0x0009 \<or> c = 0x000A \<or> c = 0x000D)"

definition is_ascii_alpha :: "16 word \<Rightarrow> bool" where
  "is_ascii_alpha c = ((0x0041 \<le> c \<and> c \<le> 0x005A) \<or> (0x0061 \<le> c \<and> c \<le> 0x007A))"

definition is_scheme_char :: "16 word \<Rightarrow> bool" where
  "is_scheme_char c = (is_ascii_alpha c \<or> (0x0030 \<le> c \<and> c \<le> 0x0039)
                       \<or> c = 0x002B \<or> c = 0x002D \<or> c = 0x002E)"

definition url_input :: "jsstring \<Rightarrow> jsstring" where
  "url_input s =
     filter (\<lambda>c. \<not> is_tab_or_newline c)
       (rev (dropWhile is_c0_or_space (rev (dropWhile is_c0_or_space s))))"

fun scheme_of :: "jsstring \<Rightarrow> (jsstring \<times> jsstring) option" where
  "scheme_of [] = None"
| "scheme_of (c # cs) =
     (if is_ascii_alpha c then
        (case dropWhile is_scheme_char cs of
           [] \<Rightarrow> None
         | d # ds \<Rightarrow> if d = 0x003A then Some (c # takeWhile is_scheme_char cs, ds) else None)
      else None)"

definition url_ok :: "(jsstring \<Rightarrow> jsstring \<Rightarrow> bool) \<Rightarrow> jsstring \<Rightarrow> bool" where
  "url_ok rest s =
     (case scheme_of (url_input s) of
        None \<Rightarrow> False
      | Some (scheme, remaining) \<Rightarrow> rest scheme remaining)"

subsection \<open>The schema\<close>

datatype kingdom = Animalia | Plantae | Fungi | Protista | Archaea | Bacteria

datatype field_name =
    F_scientific_name | F_common_name | F_kingdom | F_total_population | F_image
  | F_description

text \<open>
  The first issue a field's checks raise, which is the one the resolver shows under the
  field.
\<close>

datatype issue = Too_small | Invalid_url | Not_a_number | Not_an_integer

record species_form_values =
  scientific_name :: jsstring
  common_name :: "jsstring option"
  kingdom :: kingdom
  total_population :: "jsnumber option"
  image :: "jsstring option"
  description :: "jsstring option"

text \<open>
  \<^verbatim>\<open>(val) => (!val || val.trim() === "" ? null : val.trim())\<close>: \<^verbatim>\<open>!val\<close> holds for
  \<^verbatim>\<open>null\<close> and for the empty string.
\<close>

definition null_if_blank :: "jsstring option \<Rightarrow> jsstring option" where
  "null_if_blank val =
     (case val of
        None \<Rightarrow> None
      | Some v \<Rightarrow> if v = [] \<or> trim v = [] then None else Some (trim v))"

text \<open>\<^verbatim>\<open>z.string().trim().min(1).transform((val) => val?.trim())\<close>\<close>

definition scientific_name_schema :: "jsstring \<Rightarrow> issue + jsstring" where
  "scientific_name_schema val =
     (let t = trim val in if length t < 1 then Inl Too_small else Inr (trim t))"

text \<open>\<^verbatim>\<open>z.string().nullable().transform(...)\<close>, for the common name and the description\<close>

definition nullable_text_schema :: "jsstring option \<Rightarrow> issue + jsstring option" where
  "nullable_text_schema val = Inr (null_if_blank val)"

text \<open>
  \<^verbatim>\<open>z.number().int().positive().min(1).nullable()\<close>: \<^verbatim>\<open>null\<close> passes; a number must
  not be \<open>NaN\<close>, then \<^verbatim>\<open>Number.isInteger\<close>, then \<^verbatim>\<open>> 0\<close>, then \<^verbatim>\<open>>= 1\<close>.
\<close>

definition is_integer :: "jsnumber \<Rightarrow> bool" where
  "is_integer n = (case n of Num q \<Rightarrow> of_int \<lfloor>q\<rfloor> = q | _ \<Rightarrow> False)"

definition greater_than :: "jsnumber \<Rightarrow> rat \<Rightarrow> bool" where
  "greater_than n b = (case n of NaN \<Rightarrow> False | Infinity pos \<Rightarrow> pos | Num q \<Rightarrow> b < q)"

definition at_least :: "jsnumber \<Rightarrow> rat \<Rightarrow> bool" where
  "at_least n b = (case n of NaN \<Rightarrow> False | Infinity pos \<Rightarrow> pos | Num q \<Rightarrow> b \<le> q)"

definition total_population_schema :: "jsnumber option \<Rightarrow> issue + jsnumber option" where
  "total_population_schema val =
     (case val of
        None \<Rightarrow> Inr None
      | Some n \<Rightarrow>
          if n = NaN then Inl Not_a_number
          else if \<not> is_integer n then Inl Not_an_integer
          else if \<not> greater_than n 0 then Inl Too_small
          else if \<not> at_least n 1 then Inl Too_small
          else Inr (Some n))"

text \<open>
  \<^verbatim>\<open>z.string().url().nullable().transform(...)\<close>: \<^verbatim>\<open>null\<close> passes; a string goes
  through the URL check first, and the transform runs only on what passed.
\<close>

definition image_schema ::
  "(jsstring \<Rightarrow> jsstring \<Rightarrow> bool) \<Rightarrow> jsstring option \<Rightarrow> issue + jsstring option" where
  "image_schema rest val =
     (case val of
        None \<Rightarrow> Inr (null_if_blank None)
      | Some v \<Rightarrow> if url_ok rest v then Inr (null_if_blank (Some v)) else Inl Invalid_url)"

text \<open>The issue of one field of a draft, if it has one.\<close>

definition issue_of :: "issue + 'a \<Rightarrow> issue option" where
  "issue_of r = (case r of Inl i \<Rightarrow> Some i | Inr _ \<Rightarrow> None)"

definition field_issue ::
  "(jsstring \<Rightarrow> jsstring \<Rightarrow> bool) \<Rightarrow> species_form_values \<Rightarrow> field_name \<Rightarrow> issue option" where
  "field_issue rest v f =
     (case f of
        F_scientific_name \<Rightarrow> issue_of (scientific_name_schema (scientific_name v))
      | F_common_name \<Rightarrow> issue_of (nullable_text_schema (common_name v))
      | F_kingdom \<Rightarrow> None
      | F_total_population \<Rightarrow> issue_of (total_population_schema (total_population v))
      | F_image \<Rightarrow> issue_of (image_schema rest (image v))
      | F_description \<Rightarrow> issue_of (nullable_text_schema (description v)))"

text \<open>
  \<^verbatim>\<open>speciesSchema\<close>: every field is parsed; with no issue the result is the transformed
  data, otherwise the issues by field.
\<close>

definition speciesSchema ::
  "(jsstring \<Rightarrow> jsstring \<Rightarrow> bool) \<Rightarrow> species_form_values
     \<Rightarrow> (field_name \<Rightarrow> issue option) + species_form_values" where
  "speciesSchema rest v =
     (case (scientific_name_schema (scientific_name v),
            nullable_text_schema (common_name v),
            total_population_schema (total_population v),
            image_schema rest (image v),
            nullable_text_schema (description v)) of
        (Inr sn, Inr cn, Inr tp, Inr im, Inr de) \<Rightarrow>
          Inr \<lparr>scientific_name = sn, common_name = cn, kingdom = kingdom v,
               total_population = tp, image = im, description = de\<rparr>
      | _ \<Rightarrow> Inl (field_issue rest v))"

subsection \<open>Props, local state and what the handlers call\<close>

text \<open>A row of the \<^verbatim>\<open>species\<close> table: the six form fields, the id and the author.\<close>

record species = species_form_values +
  species_id :: int
  author :: jsstring

record props =
  species :: species
  sessionId :: jsstring

text \<open>
  The form object of \<^verbatim>\<open>useForm\<close>: the current values, the default values it keeps, and
  the issue shown under each field.
\<close>

record form_state =
  form_values :: species_form_values
  form_defaultValues :: species_form_values
  form_errors :: "field_name \<Rightarrow> issue option"

record card_state =
  open' :: bool
  openDelete :: bool
  isEditing :: bool
  form :: form_state

datatype variant = Default | Destructive

text \<open>The result of a call to the data store: \<^verbatim>\<open>error\<close> is null or carries a message.\<close>

datatype store_result = Store_ok | Store_error jsstring

text \<open>
  The calls a handler makes, in order: the update and the delete of the row with the
  given id, each with the answer the store gave, \<^verbatim>\<open>router.refresh()\<close>, and a toast
  with title, description and variant.
\<close>

datatype effect =
    Update int species_form_values store_result
  | Delete int store_result
  | Router_refresh
  | Toast jsstring "jsstring option" variant

text \<open>
  The platform functions the component reaches and the model leaves open: the URL parser
  after the scheme, and the numeric-literal grammar.
\<close>

record platform =
  url_rest :: "jsstring \<Rightarrow> jsstring \<Rightarrow> bool"
  numeric_literal :: "jsstring \<Rightarrow> jsnumber"

definition defaultValues :: "species \<Rightarrow> species_form_values" where
  "defaultValues sp =
     \<lparr>scientific_name = scientific_name sp,
      common_name = common_name sp,
      kingdom = kingdom sp,
      total_population = total_population sp,
      image = image sp,
      description = description sp\<rparr>"

text \<open>\<^verbatim>\<open>useForm({ resolver, defaultValues, mode: "onChange" })\<close> at the first render.\<close>

definition useForm :: "species_form_values \<Rightarrow> form_state" where
  "useForm dv = \<lparr>form_values = dv, form_defaultValues = dv, form_errors = (\<lambda>_. None)\<rparr>"

text \<open>\<^verbatim>\<open>form.reset(v)\<close>: the values and the kept defaults become \<open>v\<close>, the errors go.\<close>

definition form_reset :: "species_form_values \<Rightarrow> form_state \<Rightarrow> form_state" where
  "form_reset v f = f\<lparr>form_values := v, form_defaultValues := v, form_errors := (\<lambda>_. None)\<rparr>"

text \<open>
  \<^verbatim>\<open>field.onChange\<close> in mode \<^verbatim>\<open>"onChange"\<close>: the value is stored, the resolver runs
  on the new values, and the error of the changed field is set or cleared.
\<close>

definition field_onChange ::
  "platform \<Rightarrow> field_name \<Rightarrow> species_form_values \<Rightarrow> form_state \<Rightarrow> form_state" where
  "field_onChange pf fld v f =
     f\<lparr>form_values := v,
       form_errors := (form_errors f)(fld := field_issue (url_rest pf) v fld)\<rparr>"

text \<open>
  What the user can do to a field while it is not read-only. A text input hands over the
  string in the input; the select hands over one of the six options; the population input
  hands over \<^verbatim>\<open>+event.target.value\<close>.
\<close>

datatype field_input =
    Scientific_name_input jsstring
  | Common_name_input jsstring
  | Kingdom_select kingdom
  | Total_population_input jsstring
  | Image_input jsstring
  | Description_input jsstring

fun input_onChange :: "platform \<Rightarrow> field_input \<Rightarrow> form_state \<Rightarrow> form_state" where
  "input_onChange pf (Scientific_name_input s) f =
     field_onChange pf F_scientific_name ((form_values f)\<lparr>scientific_name := s\<rparr>) f"
| "input_onChange pf (Common_name_input s) f =
     field_onChange pf F_common_name ((form_values f)\<lparr>common_name := Some s\<rparr>) f"
| "input_onChange pf (Kingdom_select k) f =
     field_onChange pf F_kingdom ((form_values f)\<lparr>kingdom := k\<rparr>) f"
| "input_onChange pf (Total_population_input s) f =
     field_onChange pf F_total_population
       ((form_values f)\<lparr>total_population := Some (to_number (numeric_literal pf) s)\<rparr>) f"
| "input_onChange pf (Image_input s) f =
     field_onChange pf F_image ((form_values f)\<lparr>image := Some s\<rparr>) f"
| "input_onChange pf (Description_input s) f =
     field_onChange pf F_description ((form_values f)\<lparr>description := Some s\<rparr>) f"

subsection \<open>The handlers\<close>

text \<open>
  Each handler takes the props and the local state and returns the new local state with
  the calls it made. A handler that awaits the data store takes the store's answer.
\<close>

definition onSubmit ::
  "props \<Rightarrow> store_result \<Rightarrow> species_form_values \<Rightarrow> card_state \<Rightarrow> card_state \<times> effect list" where
  "onSubmit p r data s =
     (case r of
        Store_error message \<Rightarrow>
          (s, [Update (species_id (species p)) data r,
               Toast (js ''Something went wrong.'') (Some message) Destructive])
      | Store_ok \<Rightarrow>
          (s\<lparr>isEditing := False, form := form_reset data (form s)\<rparr>,
           [Update (species_id (species p)) data r,
            Router_refresh,
            Toast (js ''Profile updated successfully!'') None Default]))"

text \<open>
  \<^verbatim>\<open>form.handleSubmit(onSubmit)\<close>: the resolver runs on the current values; with issues
  they become the form's errors and \<^verbatim>\<open>onSubmit\<close> is not called; with none the errors
  are cleared and \<^verbatim>\<open>onSubmit\<close> gets the transformed data.
\<close>

definition handleSubmit ::
  "platform \<Rightarrow> props \<Rightarrow> store_result \<Rightarrow> card_state \<Rightarrow> card_state \<times> effect list" where
  "handleSubmit pf p r s =
     (case speciesSchema (url_rest pf) (form_values (form s)) of
        Inl issues \<Rightarrow> (s\<lparr>form := (form s)\<lparr>form_errors := issues\<rparr>\<rparr>, [])
      | Inr data \<Rightarrow> onSubmit p r data (s\<lparr>form := (form s)\<lparr>form_errors := (\<lambda>_. None)\<rparr>\<rparr>))"

definition startEditing :: "card_state \<Rightarrow> card_state \<times> effect list" where
  "startEditing s = (s\<lparr>isEditing := True\<rparr>, [])"

definition handleCancel :: "props \<Rightarrow> card_state \<Rightarrow> card_state \<times> effect list" where
  "handleCancel p s =
     (s\<lparr>form := form_reset (defaultValues (species p)) (form s), isEditing := False\<rparr>, [])"

definition startDeleting :: "props \<Rightarrow> store_result \<Rightarrow> card_state \<Rightarrow> card_state \<times> effect list" where
  "startDeleting p r s =
     (s, [Delete (species_id (species p)) r,
          Router_refresh,
          Toast (js ''Species has been deleted!'')
            (Some (js ''Successfully deleted '' @ scientific_name (species p) @ js ''.''))
            Default])"

definition handleDeleteCancel :: "card_state \<Rightarrow> card_state \<times> effect list" where
  "handleDeleteCancel s = (s\<lparr>openDelete := False\<rparr>, [])"

subsection \<open>The rendered controls and a mounted card\<close>

datatype event =
    SetOpen bool
  | SetOpenDelete bool
  | StartEditing
  | HandleCancel
  | Submit store_result
  | StartDeleting store_result
  | HandleDeleteCancel
  | Field_input field_input
  | Rerender species

text \<open>
  What the JSX offers in a state. The main dialog can always be opened and closed. Its
  content exists while it is open: the fields, editable while \<^verbatim>\<open>isEditing\<close>; and, only
  when \<^verbatim>\<open>species.author == sessionId\<close>, the submit and cancel buttons while editing,
  the edit button and the delete dialog otherwise, with the two buttons of the delete
  dialog while that is open. A re-render hands the card a fresh row, of the same id and
  author.
\<close>

definition is_author :: "props \<Rightarrow> bool" where
  "is_author p = (author (species p) = sessionId p)"

fun rendered :: "props \<Rightarrow> card_state \<Rightarrow> event \<Rightarrow> bool" where
  "rendered p s (SetOpen b) = True"
| "rendered p s (Field_input i) = (open' s \<and> isEditing s)"
| "rendered p s (Submit r) = (open' s \<and> is_author p \<and> isEditing s)"
| "rendered p s HandleCancel = (open' s \<and> is_author p \<and> isEditing s)"
| "rendered p s StartEditing = (open' s \<and> is_author p \<and> \<not> isEditing s)"
| "rendered p s (SetOpenDelete b) = (open' s \<and> is_author p \<and> \<not> isEditing s)"
| "rendered p s (StartDeleting r) =
     (open' s \<and> is_author p \<and> \<not> isEditing s \<and> openDelete s)"
| "rendered p s HandleDeleteCancel =
     (open' s \<and> is_author p \<and> \<not> isEditing s \<and> openDelete s)"
| "rendered p s (Rerender sp) =
     (species_id sp = species_id (species p) \<and> author sp = author (species p))"

text \<open>A mounted card: its props, its local state, and the calls made so far.\<close>

record mount =
  props :: props
  st :: card_state
  log :: "effect list"

definition mount_card :: "props \<Rightarrow> mount" where
  "mount_card p =
     \<lparr>props = p,
      st = \<lparr>open' = False, openDelete = False, isEditing = False,
            form = useForm (defaultValues (species p))\<rparr>,
      log = []\<rparr>"

definition after :: "mount \<Rightarrow> card_state \<times> effect list \<Rightarrow> mount" where
  "after m r = m\<lparr>st := fst r, log := log m @ snd r\<rparr>"

fun handle :: "platform \<Rightarrow> event \<Rightarrow> mount \<Rightarrow> mount" where
  "handle pf (SetOpen b) m = m\<lparr>st := (st m)\<lparr>open' := b\<rparr>\<rparr>"
| "handle pf (SetOpenDelete b) m = m\<lparr>st := (st m)\<lparr>openDelete := b\<rparr>\<rparr>"
| "handle pf StartEditing m = after m (startEditing (st m))"
| "handle pf HandleCancel m = after m (handleCancel (props m) (st m))"
| "handle pf (Submit r) m = after m (handleSubmit pf (props m) r (st m))"
| "handle pf (StartDeleting r) m = after m (startDeleting (props m) r (st m))"
| "handle pf HandleDeleteCancel m = after m (handleDeleteCancel (st m))"
| "handle pf (Field_input i) m = m\<lparr>st := (st m)\<lparr>form := input_onChange pf i (form (st m))\<rparr>\<rparr>"
| "handle pf (Rerender sp) m = m\<lparr>props := (props m)\<lparr>species := sp\<rparr>\<rparr>"

definition fire :: "platform \<Rightarrow> event \<Rightarrow> mount \<Rightarrow> mount option" where
  "fire pf ev m = (if rendered (props m) (st m) ev then Some (handle pf ev m) else None)"

fun run :: "platform \<Rightarrow> event list \<Rightarrow> mount \<Rightarrow> mount option" where
  "run pf [] m = Some m"
| "run pf (ev # evs) m = (case fire pf ev m of None \<Rightarrow> None | Some m' \<Rightarrow> run pf evs m')"

text \<open>Empty or made of white space only, in the sense of \<^verbatim>\<open>trim\<close>.\<close>

definition blank :: "jsstring \<Rightarrow> bool" where
  "blank s = list_all is_ws s"



text \<open>The field inputs of an edit session, applied in order to the form.\<close>

definition inputs_onChange :: "platform \<Rightarrow> field_input list \<Rightarrow> form_state \<Rightarrow> form_state" where
  "inputs_onChange pf ins f = fold (input_onChange pf) ins f"

text \<open>
  A call that changed the stored record: an update that the data store accepted.
\<close>

fun committed :: "effect \<Rightarrow> bool" where
  "committed (Update i d Store_ok) = True"
| "committed _ = False"

subsection \<open>A card for the examples\<close>

text \<open>
  A species row, seen by its author \<^verbatim>\<open>u1\<close> and by another viewer, and a row that has
  neither a population nor an image. \<open>example_platform\<close> stands in for the platform in
  the closed examples; none of them reaches either of its functions (their drafts carry
  no image, and what they type into the population input is empty or a small decimal
  integer).
\<close>

definition guinea_pig :: species where
  "guinea_pig =
     \<lparr>scientific_name = js ''Cavia porcellus'',
      common_name = Some (js ''Guinea pig''),
      kingdom = Animalia,
      total_population = Some (Num 300000),
      image = None,
      description = None,
      species_id = 7,
      author = js ''u1''\<rparr>"



definition author_props :: props where
  "author_props = \<lparr>species = guinea_pig, sessionId = js ''u1''\<rparr>"

definition visitor_props :: props where
  "visitor_props = \<lparr>species = guinea_pig, sessionId = js ''u2''\<rparr>"

definition example_platform :: platform where
  "example_platform = \<lparr>url_rest = (\<lambda>_ _. False), numeric_literal = (\<lambda>_. NaN)\<rparr>"

text \<open>
  The state of the author's card after opening the dialog, pressing the edit button and
  typing \<open>name\<close> into the name field.
\<close>

definition editing_card :: "jsstring \<Rightarrow> card_state" where
  "editing_card name =
     st (handle example_platform (Field_input (Scientific_name_input name))
          (handle example_platform StartEditing
            (handle example_platform (SetOpen True) (mount_card author_props))))"

section \<open>Properties\<close>

subsection \<open>Trimming\<close>

lemma strip_fixed:
  "dropWhile P (rev (dropWhile P (rev (dropWhile P s)))) = rev (dropWhile P (rev (dropWhile P s)))"
proof -
  define u where "u = dropWhile P s"
  define t where "t = rev (dropWhile P (rev u))"
  have u: "u = [] \<or> \<not> P (hd u)" unfolding u_def by (metis hd_dropWhile)
  have "rev u = takeWhile P (rev u) @ dropWhile P (rev u)" by simp
  then have split: "u = t @ rev (takeWhile P (rev u))" unfolding t_def
    by (metis rev_append rev_rev_ident)
  then have "t = [] \<or> hd t = hd u" by (metis hd_append2)
  with u split have "t = [] \<or> \<not> P (hd t)" by (cases t) auto
  then have "dropWhile P t = t" by (cases t) auto
  then show ?thesis unfolding t_def u_def .
qed

lemma strip_Nil_iff: "rev (dropWhile P (rev (dropWhile P s))) = [] \<longleftrightarrow> list_all P s"
proof -
  have "(\<forall>x\<in>set (dropWhile P s). P x) \<longleftrightarrow> dropWhile P s = []"
    by (metis hd_dropWhile hd_in_set empty_iff list.set(1))
  then show ?thesis
    by (simp add: dropWhile_eq_Nil_conv list_all_iff)
qed

lemma trim_idem: "trim (trim s) = trim s"
  unfolding trim_def by (simp add: strip_fixed dropWhile_idem)

lemma trim_Nil_iff: "trim s = [] \<longleftrightarrow> blank s"
  unfolding trim_def blank_def by (rule strip_Nil_iff)

lemma blank_Nil: "blank []"
  by (simp add: blank_def)

lemma ws_not_alpha: "is_ws c \<Longrightarrow> \<not> is_ascii_alpha c"
  unfolding is_ws_def is_ascii_alpha_def by (auto simp: word_le_def)

subsection \<open>The schema, field by field\<close>

lemma null_if_blank_eq: "null_if_blank (Some s) = (if blank s then None else Some (trim s))"
  by (auto simp: null_if_blank_def trim_Nil_iff blank_Nil)

lemma null_if_blank_idem: "null_if_blank (null_if_blank v) = null_if_blank v"
  by (cases v) (auto simp: null_if_blank_def trim_idem)

lemma speciesSchema_Inr:
  "speciesSchema rest d = Inr d' \<Longrightarrow>
     scientific_name_schema (scientific_name d) = Inr (scientific_name d')
     \<and> nullable_text_schema (common_name d) = Inr (common_name d')
     \<and> kingdom d' = kingdom d
     \<and> total_population_schema (total_population d) = Inr (total_population d')
     \<and> image_schema rest (image d) = Inr (image d')
     \<and> nullable_text_schema (description d) = Inr (description d')"
  unfolding speciesSchema_def by (auto split: sum.splits)

text \<open>
  C5. The common name and the description are normalised alike when the draft is
  validated: \<^verbatim>\<open>null\<close> stays \<^verbatim>\<open>null\<close>, an empty or white-space-only string becomes
  \<^verbatim>\<open>null\<close>, any other string becomes its trimmed form; and normalising a normalised
  value gives the same value. The data of a valid draft carries the two fields in this
  normal form.
\<close>

theorem nullable_text_normalization:
  "nullable_text_schema None = Inr None
   \<and> nullable_text_schema (Some s) = Inr (if blank s then None else Some (trim s))
   \<and> (nullable_text_schema v = Inr w \<longrightarrow> nullable_text_schema w = Inr w)
   \<and> (speciesSchema rest d = Inr d' \<longrightarrow>
        nullable_text_schema (common_name d) = Inr (common_name d')
        \<and> nullable_text_schema (description d) = Inr (description d'))"
proof (intro conjI impI)
  show "nullable_text_schema None = Inr None"
    by (simp add: nullable_text_schema_def null_if_blank_def)
  show "nullable_text_schema (Some s) = Inr (if blank s then None else Some (trim s))"
    by (simp add: nullable_text_schema_def null_if_blank_eq)
  show "nullable_text_schema w = Inr w" if "nullable_text_schema v = Inr w"
    using that by (auto simp: nullable_text_schema_def null_if_blank_idem)
  show "nullable_text_schema (common_name d) = Inr (common_name d')"
    if "speciesSchema rest d = Inr d'"
    using speciesSchema_Inr [OF that] by simp
  show "nullable_text_schema (description d) = Inr (description d')"
    if "speciesSchema rest d = Inr d'"
    using speciesSchema_Inr [OF that] by simp
qed


theorem nullable_text_normalization_witness:
  "nullable_text_schema (Some (js ''  Felis catus  '')) = Inr (Some (js ''Felis catus''))
   \<and> nullable_text_schema (Some (js ''Felis catus'')) = Inr (Some (js ''Felis catus''))
   \<and> speciesSchema (url_rest example_platform)
        ((defaultValues guinea_pig)\<lparr>common_name := Some (js ''  Felis catus  ''),
                                   description := Some (js '' '')\<rparr>)
      = Inr ((defaultValues guinea_pig)\<lparr>common_name := Some (js ''Felis catus''),
                                         description := None\<rparr>)
   \<and> nullable_text_schema (Some (js '' '')) = Inr None"
proof -
  let ?d = "(defaultValues guinea_pig)\<lparr>common_name := Some (js ''  Felis catus  ''),
                                   description := Some (js '' '')\<rparr>"
  let ?d' = "(defaultValues guinea_pig)\<lparr>common_name := Some (js ''Felis catus''),
                                         description := None\<rparr>"
  have a: "nullable_text_schema (Some (js ''  Felis catus  '')) = Inr (Some (js ''Felis catus''))"
    by (simp add: nullable_text_schema_def null_if_blank_def trim_def js_def is_ws_def)
  have c: "speciesSchema (url_rest example_platform) ?d = Inr ?d'"
    by (simp add: speciesSchema_def nullable_text_schema_def null_if_blank_def trim_def js_def
      is_ws_def defaultValues_def guinea_pig_def scientific_name_schema_def
      total_population_schema_def image_schema_def is_integer_def greater_than_def at_least_def)
  have d: "description ?d = Some (js '' '')" "description ?d' = None"
    by simp_all
  from nullable_text_normalization [of "js ''  Felis catus  ''" "Some (js ''  Felis catus  '')"
      "Some (js ''Felis catus'')" "url_rest example_platform" ?d ?d'] a c
  have "nullable_text_schema (Some (js ''Felis catus'')) = Inr (Some (js ''Felis catus''))"
    and "nullable_text_schema (description ?d) = Inr (description ?d')"
    by blast+
  with a c d show ?thesis by simp
qed

lemma scientific_name_schema_eq:
  "scientific_name_schema s = (if blank s then Inl Too_small else Inr (trim s))"
  by (simp add: scientific_name_schema_def Let_def trim_idem flip: trim_Nil_iff)

text \<open>Unfolding sets for the closed examples.\<close>

lemmas example_defs =
  editing_card_def mount_card_def author_props_def guinea_pig_def example_platform_def
  useForm_def defaultValues_def after_def startEditing_def field_onChange_def
  field_issue_def issue_of_def

lemmas schema_defs =
  speciesSchema_def scientific_name_schema_def nullable_text_schema_def null_if_blank_def
  total_population_schema_def image_schema_def is_integer_def greater_than_def at_least_def
  trim_def js_def is_ws_def

subsection \<open>Submitting an edit\<close>

text \<open>
  C4. When the name field of the draft is empty or white space only, submitting makes no
  call at all (in particular no update reaches the data store), the name field shows the
  issue of its length check, and the card stays in editing mode with the draft as it was.
\<close>

theorem submit_blank_name_aborts:
  assumes "blank (scientific_name (form_values (form s)))" and "isEditing s"
  shows "case handleSubmit pf p r s of (s', calls) \<Rightarrow>
           calls = []
           \<and> form_errors (form s') F_scientific_name = Some Too_small
           \<and> isEditing s'
           \<and> form_values (form s') = form_values (form s)
           \<and> form_defaultValues (form s') = form_defaultValues (form s)
           \<and> open' s' = open' s \<and> openDelete s' = openDelete s"
proof -
  have "scientific_name_schema (scientific_name (form_values (form s))) = Inl Too_small"
    using assms(1) by (simp add: scientific_name_schema_eq)
  then have "speciesSchema (url_rest pf) (form_values (form s))
             = Inl (field_issue (url_rest pf) (form_values (form s)))"
    and "field_issue (url_rest pf) (form_values (form s)) F_scientific_name = Some Too_small"
    by (simp_all add: speciesSchema_def field_issue_def issue_of_def)
  then show ?thesis
    using assms(2) by (simp add: handleSubmit_def)
qed

theorem submit_blank_name_aborts_witness:
  "blank (scientific_name (form_values (form (editing_card (js ''   '')))))
   \<and> isEditing (editing_card (js ''   ''))
   \<and> (case handleSubmit example_platform author_props Store_ok (editing_card (js ''   '')) of
        (s', calls) \<Rightarrow>
           calls = []
           \<and> form_errors (form s') F_scientific_name = Some Too_small
           \<and> isEditing s'
           \<and> form_values (form s') = form_values (form (editing_card (js ''   '')))
           \<and> form_defaultValues (form s') = form_defaultValues (form (editing_card (js ''   '')))
           \<and> open' s' = open' (editing_card (js ''   ''))
           \<and> openDelete s' = openDelete (editing_card (js ''   '')))"
proof -
  have h1: "blank (scientific_name (form_values (form (editing_card (js ''   '')))))"
    by (simp add: example_defs blank_def js_def is_ws_def)
  have h2: "isEditing (editing_card (js ''   ''))"
    by (simp add: example_defs)
  from h1 h2 submit_blank_name_aborts [OF h1 h2, of example_platform author_props Store_ok]
  show ?thesis by (intro conjI)
qed

text \<open>
  C3. When the draft passes validation and the data store answers the update with an
  error, submitting makes exactly two calls: the update, and one destructive toast that
  carries the store's message. There is no refresh and no success toast; the card stays
  in editing mode, the draft and the kept defaults are not reset, and both dialogs stay
  as they were.
\<close>

theorem submit_store_error_keeps_editing:
  assumes "speciesSchema (url_rest pf) (form_values (form s)) = Inr data" and "isEditing s"
  shows "case handleSubmit pf p (Store_error message) s of (s', calls) \<Rightarrow>
           calls = [Update (species_id (species p)) data (Store_error message),
                    Toast (js ''Something went wrong.'') (Some message) Destructive]
           \<and> isEditing s'
           \<and> form_values (form s') = form_values (form s)
           \<and> form_defaultValues (form s') = form_defaultValues (form s)
           \<and> open' s' = open' s \<and> openDelete s' = openDelete s"
  using assms by (simp add: handleSubmit_def onSubmit_def)

theorem submit_store_error_keeps_editing_witness:
  "speciesSchema (url_rest example_platform)
     (form_values (form (editing_card (js ''Cavia aperea''))))
   = Inr ((defaultValues guinea_pig)\<lparr>scientific_name := js ''Cavia aperea''\<rparr>)
   \<and> isEditing (editing_card (js ''Cavia aperea''))
   \<and> snd (handleSubmit example_platform author_props (Store_error (js ''permission denied''))
            (editing_card (js ''Cavia aperea'')))
     = [Update 7 ((defaultValues guinea_pig)\<lparr>scientific_name := js ''Cavia aperea''\<rparr>)
          (Store_error (js ''permission denied'')),
        Toast (js ''Something went wrong.'') (Some (js ''permission denied'')) Destructive]
   \<and> isEditing (fst (handleSubmit example_platform author_props
                       (Store_error (js ''permission denied''))
                       (editing_card (js ''Cavia aperea''))))"
proof -
  have h1: "speciesSchema (url_rest example_platform)
              (form_values (form (editing_card (js ''Cavia aperea''))))
            = Inr ((defaultValues guinea_pig)\<lparr>scientific_name := js ''Cavia aperea''\<rparr>)"
    by (simp add: example_defs schema_defs)
  have h2: "isEditing (editing_card (js ''Cavia aperea''))"
    by (simp add: example_defs)
  have id: "species_id (species author_props) = 7"
    by (simp add: author_props_def guinea_pig_def)
  from submit_store_error_keeps_editing [OF h1 h2, of author_props "js ''permission denied''"]
  show ?thesis using h1 h2 id by (simp add: case_prod_beta)
qed




subsection \<open>The image field\<close>

lemma scheme_of_Some: "scheme_of t = Some r \<Longrightarrow> t \<noteq> [] \<and> is_ascii_alpha (hd t)"
  by (cases t) (auto split: if_splits)

lemma set_url_input: "set (url_input s) \<subseteq> set s"
proof -
  have "set (dropWhile is_c0_or_space (rev (dropWhile is_c0_or_space s))) \<subseteq> set s"
  proof
    fix x assume "x \<in> set (dropWhile is_c0_or_space (rev (dropWhile is_c0_or_space s)))"
    then have "x \<in> set (rev (dropWhile is_c0_or_space s))" by (rule set_dropWhileD)
    then have "x \<in> set (dropWhile is_c0_or_space s)" by simp
    then show "x \<in> set s" by (rule set_dropWhileD)
  qed
  then show ?thesis unfolding url_input_def by auto
qed

lemma url_ok_blank: "blank s \<Longrightarrow> \<not> url_ok rest s"
proof
  assume b: "blank s" and ok: "url_ok rest s"
  from ok obtain r where "scheme_of (url_input s) = Some r"
    unfolding url_ok_def by (auto split: option.splits)
  then have "url_input s \<noteq> []" and alpha: "is_ascii_alpha (hd (url_input s))"
    using scheme_of_Some by blast+
  then have "hd (url_input s) \<in> set s"
    using set_url_input hd_in_set by blast
  with b have "is_ws (hd (url_input s))"
    by (simp add: blank_def list_all_iff)
  with alpha show False
    using ws_not_alpha by blast
qed

lemma image_schema_blank: "blank s \<Longrightarrow> image_schema rest (Some s) = Inl Invalid_url"
  by (simp add: image_schema_def url_ok_blank)

lemma image_schema_url: "url_ok rest s \<Longrightarrow> image_schema rest (Some s) = Inr (Some (trim s))"
  using url_ok_blank [of s rest] by (auto simp: image_schema_def null_if_blank_eq)

lemma image_schema_not_url: "\<not> url_ok rest s \<Longrightarrow> image_schema rest (Some s) = Inl Invalid_url"
  by (simp add: image_schema_def)

text \<open>
  C6. A draft whose image field holds the empty string does not pass validation: the URL
  check comes before the transform that would turn the empty string into \<^verbatim>\<open>null\<close>, and
  the empty string has no scheme. The image field shows the URL issue and the schema
  returns issues, not data, whatever the other fields hold.
\<close>

theorem empty_image_is_rejected:
  "image_schema rest (Some []) = Inl Invalid_url
   \<and> speciesSchema rest (d\<lparr>image := Some []\<rparr>) = Inl (field_issue rest (d\<lparr>image := Some []\<rparr>))
   \<and> field_issue rest (d\<lparr>image := Some []\<rparr>) F_image = Some Invalid_url"
proof -
  have a: "image_schema rest (Some []) = Inl Invalid_url"
    by (simp add: image_schema_blank blank_Nil)
  then show ?thesis
    by (simp add: speciesSchema_def field_issue_def issue_of_def split: sum.splits)
qed

subsection \<open>Confirming a deletion\<close>

lemmas run_defs =
  fire_def after_def mount_card_def useForm_def defaultValues_def is_author_def
  startEditing_def handleCancel_def startDeleting_def handleDeleteCancel_def
  author_props_def guinea_pig_def example_platform_def

text \<open>
  C1, as the code has it. Whatever the data store answers to the delete, pressing the
  confirm button makes exactly three calls in this order: the delete, one refresh, and one
  toast of the default variant saying the species was deleted. The local state is left as
  it was; in particular the confirmation dialog, open when the button is pressed, is still
  open afterwards.
\<close>

theorem confirm_delete_any_result:
  assumes "rendered (props m) (st m) (StartDeleting r)"
  shows "fire pf (StartDeleting r) m =
           Some (m\<lparr>log := log m @
                    [Delete (species_id (species (props m))) r,
                     Router_refresh,
                     Toast (js ''Species has been deleted!'')
                       (Some (js ''Successfully deleted '' @ scientific_name (species (props m))
                              @ js ''.''))
                       Default]\<rparr>)
         \<and> openDelete (st m)"
  using assms by (simp add: fire_def after_def startDeleting_def)

theorem confirm_delete_any_result_witness:
  "rendered (props (handle example_platform (SetOpenDelete True)
                     (handle example_platform (SetOpen True) (mount_card author_props))))
            (st (handle example_platform (SetOpenDelete True)
                     (handle example_platform (SetOpen True) (mount_card author_props))))
            (StartDeleting (Store_error (js ''permission denied'')))
   \<and> map_option log
        (fire example_platform (StartDeleting (Store_error (js ''permission denied'')))
          (handle example_platform (SetOpenDelete True)
            (handle example_platform (SetOpen True) (mount_card author_props))))
     = Some [Delete 7 (Store_error (js ''permission denied'')),
             Router_refresh,
             Toast (js ''Species has been deleted!'')
               (Some (js ''Successfully deleted Cavia porcellus.'')) Default]"
proof -
  let ?m = "handle example_platform (SetOpenDelete True)
              (handle example_platform (SetOpen True) (mount_card author_props))"
  have h: "rendered (props ?m) (st ?m) (StartDeleting (Store_error (js ''permission denied'')))"
    by (simp add: run_defs js_def)
  have l: "log ?m = []" "species_id (species (props ?m)) = 7"
    "scientific_name (species (props ?m)) = js ''Cavia porcellus''"
    by (simp_all add: run_defs)
  from confirm_delete_any_result [OF h, of example_platform]
  show ?thesis using h l by (simp add: js_def)
qed

text \<open>
  C1 as stated fails: after opening the card, opening the confirmation dialog and
  confirming, \<^verbatim>\<open>openDelete\<close> is still true, for a store error and for a store success.
\<close>

theorem confirm_delete_leaves_dialog_open:
  "map_option (openDelete \<circ> st)
     (run example_platform
        [SetOpen True, SetOpenDelete True, StartDeleting (Store_error (js ''permission denied''))]
        (mount_card author_props)) = Some True
   \<and> map_option (openDelete \<circ> st)
     (run example_platform
        [SetOpen True, SetOpenDelete True, StartDeleting Store_ok]
        (mount_card author_props)) = Some True"
  by (simp add: run_defs js_def)

text \<open>
  C2 at the failing input: the data store answers the delete with an error, and the card
  still calls the refresh (and announces a successful deletion).
\<close>

theorem delete_error_still_refreshes:
  "map_option log
     (run example_platform
        [SetOpen True, SetOpenDelete True, StartDeleting (Store_error (js ''permission denied''))]
        (mount_card author_props))
   = Some [Delete 7 (Store_error (js ''permission denied'')),
           Router_refresh,
           Toast (js ''Species has been deleted!'')
             (Some (js ''Successfully deleted Cavia porcellus.'')) Default]"
  by (simp add: run_defs js_def)

text \<open>
  The submit path does what the delete path misses: a refresh after a submit means the
  store accepted the update.
\<close>

lemma submit_refresh_only_after_ok:
  "Router_refresh \<in> set (snd (handleSubmit pf p r s)) \<Longrightarrow>
     r = Store_ok \<and> (\<exists>data. snd (handleSubmit pf p r s) =
        [Update (species_id (species p)) data Store_ok, Router_refresh,
         Toast (js ''Profile updated successfully!'') None Default])"
  by (auto simp: handleSubmit_def onSubmit_def split: sum.splits store_result.splits)


subsection \<open>A viewer who is not the author\<close>

lemma visitor_step:
  assumes "\<not> is_author (props m)" and "\<not> isEditing (st m)" and "\<not> openDelete (st m)"
    and "fire pf ev m = Some m'"
  shows "\<not> is_author (props m') \<and> \<not> isEditing (st m') \<and> \<not> openDelete (st m')
         \<and> log m' = log m \<and> form (st m') = form (st m)"
  using assms by (cases ev) (auto simp: fire_def is_author_def split: if_splits)

lemma visitor_run:
  assumes "run pf evs m = Some m'"
    and "\<not> is_author (props m)" and "\<not> isEditing (st m)" and "\<not> openDelete (st m)"
  shows "\<not> is_author (props m') \<and> \<not> isEditing (st m') \<and> \<not> openDelete (st m')
         \<and> log m' = log m \<and> form (st m') = form (st m)"
  using assms
proof (induction evs arbitrary: m)
  case Nil
  then show ?case by simp
next
  case (Cons ev evs)
  from Cons.prems(1) obtain m1 where f: "fire pf ev m = Some m1" and r: "run pf evs m1 = Some m'"
    by (auto split: option.splits)
  from visitor_step [OF Cons.prems(2-4) f] Cons.IH [OF r]
  show ?case by simp
qed

lemma visitor_controls:
  assumes "\<not> is_author p" and "\<not> isEditing s" and "rendered p s ev"
  shows "(\<exists>b. ev = SetOpen b) \<or> (\<exists>sp. ev = Rerender sp)"
  using assms by (cases ev) auto

text \<open>
  C7. On a card whose viewer is not the author of the species, whatever the viewer does
  from the mount on, the card is never in editing mode and the delete confirmation is
  never open; no call is made, the form keeps the values it was mounted with, and the
  only controls ever rendered are the opening and closing of the main dialog (besides a
  re-render by the parent).
\<close>

theorem visitor_never_leaves_viewing:
  assumes "author (species p) \<noteq> sessionId p" and "run pf evs (mount_card p) = Some m"
  shows "\<not> isEditing (st m) \<and> \<not> openDelete (st m) \<and> log m = []
         \<and> form (st m) = useForm (defaultValues (species p))
         \<and> (\<forall>ev. rendered (props m) (st m) ev \<longrightarrow>
               (\<exists>b. ev = SetOpen b) \<or> (\<exists>sp. ev = Rerender sp))"
proof -
  have "\<not> is_author (props (mount_card p))" "\<not> isEditing (st (mount_card p))"
    "\<not> openDelete (st (mount_card p))"
    using assms(1) by (simp_all add: is_author_def mount_card_def)
  from visitor_run [OF assms(2) this]
  show ?thesis using visitor_controls [of "props m" "st m"] by (auto simp: mount_card_def)
qed

theorem visitor_never_leaves_viewing_witness:
  "author (species visitor_props) \<noteq> sessionId visitor_props
   \<and> run example_platform [SetOpen True, SetOpen False, SetOpen True] (mount_card visitor_props)
     = Some ((mount_card visitor_props)\<lparr>st := (st (mount_card visitor_props))\<lparr>open' := True\<rparr>\<rparr>)
   \<and> \<not> isEditing (st ((mount_card visitor_props)\<lparr>st := (st (mount_card visitor_props))\<lparr>open' := True\<rparr>\<rparr>))
   \<and> \<not> openDelete (st ((mount_card visitor_props)\<lparr>st := (st (mount_card visitor_props))\<lparr>open' := True\<rparr>\<rparr>))
   \<and> run example_platform [SetOpen True, StartEditing] (mount_card visitor_props) = None
   \<and> run example_platform [SetOpen True, SetOpenDelete True] (mount_card visitor_props) = None"
proof -
  let ?m = "(mount_card visitor_props)\<lparr>st := (st (mount_card visitor_props))\<lparr>open' := True\<rparr>\<rparr>"
  have h1: "author (species visitor_props) \<noteq> sessionId visitor_props"
    by (simp add: visitor_props_def guinea_pig_def js_def)
  have h2: "run example_platform [SetOpen True, SetOpen False, SetOpen True]
              (mount_card visitor_props) = Some ?m"
    by (simp add: fire_def mount_card_def)
  have n: "run example_platform [SetOpen True, StartEditing] (mount_card visitor_props) = None"
    "run example_platform [SetOpen True, SetOpenDelete True] (mount_card visitor_props) = None"
    by (simp_all add: fire_def mount_card_def is_author_def visitor_props_def guinea_pig_def js_def)
  from visitor_never_leaves_viewing [OF h1 h2]
  have "\<not> isEditing (st ?m) \<and> \<not> openDelete (st ?m)" by blast
  with h1 h2 n show ?thesis by blast
qed


subsection \<open>Cancelling an edit\<close>

lemma form_reset_eq: "form_reset v f = useForm v"
  by (cases f) (simp add: form_reset_def useForm_def)

lemma inputs_run:
  assumes "open' (st m)" and "isEditing (st m)"
  shows "run pf (map Field_input ins @ evs) m
         = run pf evs (m\<lparr>st := (st m)\<lparr>form := inputs_onChange pf ins (form (st m))\<rparr>\<rparr>)"
  using assms
proof (induction ins arbitrary: m)
  case Nil
  then show ?case by (simp add: inputs_onChange_def)
next
  case (Cons i ins)
  let ?m1 = "m\<lparr>st := (st m)\<lparr>form := input_onChange pf i (form (st m))\<rparr>\<rparr>"
  have "fire pf (Field_input i) m = Some ?m1"
    using Cons.prems by (simp add: fire_def)
  moreover have "open' (st ?m1)" "isEditing (st ?m1)"
    using Cons.prems by simp_all
  ultimately show ?case
    using Cons.IH [of ?m1] by (simp add: inputs_onChange_def)
qed

lemma fire_log_committed:
  assumes "fire pf ev m = Some m'" and "ev \<noteq> Submit Store_ok"
  shows "filter committed (log m') = filter committed (log m)"
proof (cases ev)
  case (Submit r)
  with assms(2) obtain msg where r: "r = Store_error msg" by (cases r) auto
  from assms(1) Submit r show ?thesis
    by (auto simp: fire_def after_def handleSubmit_def onSubmit_def split: if_splits sum.splits)
qed (use assms(1) in \<open>auto simp: fire_def after_def startEditing_def handleCancel_def
      startDeleting_def handleDeleteCancel_def split: if_splits\<close>)

lemma run_log_committed:
  assumes "run pf evs m = Some m'" and "Submit Store_ok \<notin> set evs"
  shows "filter committed (log m') = filter committed (log m)"
  using assms
proof (induction evs arbitrary: m)
  case Nil
  then show ?case by simp
next
  case (Cons ev evs)
  from Cons.prems(1) obtain m1 where f: "fire pf ev m = Some m1" and r: "run pf evs m1 = Some m'"
    by (auto split: option.splits)
  from Cons.prems(2) have "ev \<noteq> Submit Store_ok" "Submit Store_ok \<notin> set evs" by auto
  with fire_log_committed [OF f] Cons.IH [OF r] show ?case by simp
qed

lemmas handler_defs =
  handleSubmit_def onSubmit_def form_reset_def field_onChange_def field_issue_def issue_of_def

text \<open>
  C8, as the code has it. From any state that shows the edit button, pressing it, making
  any sequence of changes to the fields and pressing cancel leaves the card as it was
  before, except that the form is reset to the default values computed from the species
  in the props: every draft field holds the props' value, the errors are gone, editing is
  off, and no call was made. These are the values held before the edit began whenever the
  form then agreed with the props (at the mount, or once a re-render has delivered the
  stored row). And over any sequence of interactions that contains no submit answered
  with success, the accepted updates in the log are those that were there before.
\<close>

theorem cancel_resets_to_props:
  "(rendered (props m) (st m) StartEditing \<longrightarrow>
      run pf (StartEditing # map Field_input ins @ [HandleCancel]) m
      = Some (m\<lparr>st := (st m)\<lparr>form := useForm (defaultValues (species (props m))),
                              isEditing := False\<rparr>\<rparr>))
   \<and> (run pf evs m = Some m' \<and> Submit Store_ok \<notin> set evs \<longrightarrow>
        filter committed (log m') = filter committed (log m))"
proof (intro conjI impI)
  assume h: "rendered (props m) (st m) StartEditing"
  let ?m1 = "m\<lparr>st := (st m)\<lparr>isEditing := True\<rparr>\<rparr>"
  have f: "fire pf StartEditing m = Some ?m1"
    using h by (simp add: fire_def after_def startEditing_def)
  have "run pf (map Field_input ins @ [HandleCancel]) ?m1
        = run pf [HandleCancel] (?m1\<lparr>st := (st ?m1)\<lparr>form := inputs_onChange pf ins (form (st ?m1))\<rparr>\<rparr>)"
    using h by (intro inputs_run) simp_all
  also have "\<dots> = Some (m\<lparr>st := (st m)\<lparr>form := useForm (defaultValues (species (props m))),
                              isEditing := False\<rparr>\<rparr>)"
    using h by (simp add: fire_def after_def handleCancel_def form_reset_eq)
  finally show "run pf (StartEditing # map Field_input ins @ [HandleCancel]) m
      = Some (m\<lparr>st := (st m)\<lparr>form := useForm (defaultValues (species (props m))),
                              isEditing := False\<rparr>\<rparr>)"
    using f by simp
next
  assume "run pf evs m = Some m' \<and> Submit Store_ok \<notin> set evs"
  then show "filter committed (log m') = filter committed (log m)"
    using run_log_committed by blast
qed

theorem cancel_resets_to_props_witness:
  "rendered (props (handle example_platform (SetOpen True) (mount_card author_props)))
            (st (handle example_platform (SetOpen True) (mount_card author_props))) StartEditing
   \<and> map_option (form_values \<circ> form \<circ> st)
        (run example_platform
           (StartEditing #
            map Field_input [Scientific_name_input (js ''Cavia aperea''), Total_population_input []]
            @ [HandleCancel])
           (handle example_platform (SetOpen True) (mount_card author_props)))
     = Some (defaultValues guinea_pig)
   \<and> run example_platform
        [SetOpen True, StartEditing, Field_input (Scientific_name_input (js ''Cavia aperea'')),
         Submit (Store_error (js ''permission denied''))]
        (mount_card author_props)
     = Some (handle example_platform (Submit (Store_error (js ''permission denied'')))
              (handle example_platform (Field_input (Scientific_name_input (js ''Cavia aperea'')))
                (handle example_platform StartEditing
                  (handle example_platform (SetOpen True) (mount_card author_props)))))
   \<and> Submit Store_ok \<notin> set [SetOpen True, StartEditing,
         Field_input (Scientific_name_input (js ''Cavia aperea'')),
         Submit (Store_error (js ''permission denied''))]
   \<and> filter committed
        (log (handle example_platform (Submit (Store_error (js ''permission denied'')))
              (handle example_platform (Field_input (Scientific_name_input (js ''Cavia aperea'')))
                (handle example_platform StartEditing
                  (handle example_platform (SetOpen True) (mount_card author_props))))))
     = []"
proof -
  let ?m = "handle example_platform (SetOpen True) (mount_card author_props)"
  let ?ins = "[Scientific_name_input (js ''Cavia aperea''), Total_population_input []]"
  let ?evs = "[SetOpen True, StartEditing, Field_input (Scientific_name_input (js ''Cavia aperea'')),
               Submit (Store_error (js ''permission denied''))]"
  let ?m' = "handle example_platform (Submit (Store_error (js ''permission denied'')))
              (handle example_platform (Field_input (Scientific_name_input (js ''Cavia aperea'')))
                (handle example_platform StartEditing
                  (handle example_platform (SetOpen True) (mount_card author_props))))"
  have h1: "rendered (props ?m) (st ?m) StartEditing"
    by (simp add: run_defs js_def)
  have h2: "run example_platform ?evs (mount_card author_props) = Some ?m'"
    by (simp add: run_defs js_def)
  have h3: "Submit Store_ok \<notin> set ?evs"
    by simp
  have p: "species (props ?m) = guinea_pig" "log (mount_card author_props) = []"
    by (simp_all add: run_defs)
  note t = cancel_resets_to_props [of ?m example_platform ?ins ?evs ?m']
  from t h1 have "run example_platform (StartEditing # map Field_input ?ins @ [HandleCancel]) ?m
      = Some (?m\<lparr>st := (st ?m)\<lparr>form := useForm (defaultValues (species (props ?m))),
                              isEditing := False\<rparr>\<rparr>)"
    by blast
  then have a: "map_option (form_values \<circ> form \<circ> st)
        (run example_platform (StartEditing # map Field_input ?ins @ [HandleCancel]) ?m)
     = Some (defaultValues guinea_pig)"
    using p by (simp add: useForm_def)
  from cancel_resets_to_props [of "mount_card author_props" example_platform ?ins ?evs ?m'] h2 h3
  have "filter committed (log ?m') = filter committed (log (mount_card author_props))"
    by blast
  then have b: "filter committed (log ?m') = []"
    using p by simp
  from h1 a h2 h3 b show ?thesis by (intro conjI)
qed

text \<open>
  C8 as stated fails after a successful submit, as long as the parent has not re-rendered
  the card with the stored row: the author changes the name and submits, the store accepts
  the update and the form holds the committed name; the author then presses edit and
  cancel, and the form holds the name of the props again, not the committed one.
\<close>

theorem cancel_forgets_committed_edit:
  "map_option (scientific_name \<circ> form_values \<circ> form \<circ> st)
     (run example_platform
        [SetOpen True, StartEditing, Field_input (Scientific_name_input (js ''Cavia aperea'')),
         Submit Store_ok]
        (mount_card author_props))
   = Some (js ''Cavia aperea'')
   \<and> map_option (filter committed \<circ> log)
     (run example_platform
        [SetOpen True, StartEditing, Field_input (Scientific_name_input (js ''Cavia aperea'')),
         Submit Store_ok]
        (mount_card author_props))
   = Some [Update 7 ((defaultValues guinea_pig)\<lparr>scientific_name := js ''Cavia aperea''\<rparr>) Store_ok]
   \<and> map_option (scientific_name \<circ> form_values \<circ> form \<circ> st)
     (run example_platform
        [SetOpen True, StartEditing, Field_input (Scientific_name_input (js ''Cavia aperea'')),
         Submit Store_ok, StartEditing, HandleCancel]
        (mount_card author_props))
   = Some (js ''Cavia porcellus'')"
  by (simp add: run_defs handler_defs schema_defs)

text \<open>
  Once the parent has re-rendered the card with the stored row, the same edit and cancel
  keep the committed name.
\<close>

lemma cancel_after_rerender_keeps_committed_edit:
  "map_option (scientific_name \<circ> form_values \<circ> form \<circ> st)
     (run example_platform
        [SetOpen True, StartEditing, Field_input (Scientific_name_input (js ''Cavia aperea'')),
         Submit Store_ok, Rerender (guinea_pig\<lparr>scientific_name := js ''Cavia aperea''\<rparr>),
         StartEditing, HandleCancel]
        (mount_card author_props))
   = Some (js ''Cavia aperea'')"
  by (simp add: run_defs handler_defs schema_defs)

subsection \<open>The population input\<close>













lemma to_number_empty: "to_number lit [] = Num 0"
  by (simp add: to_number_def trim_def)













text \<open>Emptying the population input of a species that has a population stores 0.\<close>

lemma population_cleared_example:
  "total_population
     (form_values (inputs_onChange example_platform
        [Total_population_input [], Common_name_input (js ''cavy'')]
        (form (st (mount_card author_props)))))
   = Some (Num 0)"
  by (simp add: run_defs inputs_onChange_def field_onChange_def to_number_empty)

end
